theory Spec2Isabelle
  imports Complex_Main
begin

section \<open>JavaScript numbers\<close>

text \<open>
  The player computes with JavaScript numbers. The model keeps the values that decide a
  branch of the code apart: \<open>NaN\<close>, the two infinities and the finite numbers. A finite
  number is a real; rounding of doubles and the sign of zero are not modelled, so
  \<open>30 * (t / 30)\<close> is \<open>t\<close> here, while in the browser it is \<open>t\<close> up to the last bit.
\<close>

datatype number = NaN | NegInf | Num real | PosInf

definition isNaN :: "number \<Rightarrow> bool" where
  "isNaN x = (x = NaN)"

text \<open>\<open>x <= y\<close> of JavaScript: false as soon as one side is \<open>NaN\<close>.\<close>

fun js_le :: "number \<Rightarrow> number \<Rightarrow> bool" where
  "js_le NaN y = False"
| "js_le x NaN = False"
| "js_le NegInf y = True"
| "js_le x PosInf = True"
| "js_le (Num a) (Num b) = (a \<le> b)"
| "js_le x y = False"

definition js_ge :: "number \<Rightarrow> number \<Rightarrow> bool" where
  "js_ge x y = js_le y x"

text \<open>\<open>Math.max\<close> and \<open>Math.min\<close> of two arguments: \<open>NaN\<close> if either is \<open>NaN\<close>.\<close>

definition Math_max :: "number \<Rightarrow> number \<Rightarrow> number" where
  "Math_max x y = (if x = NaN \<or> y = NaN then NaN else if js_le x y then y else x)"

definition Math_min :: "number \<Rightarrow> number \<Rightarrow> number" where
  "Math_min x y = (if x = NaN \<or> y = NaN then NaN else if js_le x y then x else y)"

fun js_sign :: "number \<Rightarrow> int" where
  "js_sign NaN = 0"
| "js_sign NegInf = - 1"
| "js_sign PosInf = 1"
| "js_sign (Num a) = (if a < 0 then - 1 else if a = 0 then 0 else 1)"

fun js_times :: "number \<Rightarrow> number \<Rightarrow> number" where
  "js_times NaN y = NaN"
| "js_times x NaN = NaN"
| "js_times (Num a) (Num b) = Num (a * b)"
| "js_times x y =
     (if js_sign x * js_sign y = 0 then NaN
      else if js_sign x * js_sign y > 0 then PosInf else NegInf)"

fun js_divide :: "number \<Rightarrow> number \<Rightarrow> number" where
  "js_divide NaN y = NaN"
| "js_divide x NaN = NaN"
| "js_divide (Num a) (Num b) =
     (if b \<noteq> 0 then Num (a / b)
      else if a = 0 then NaN else if a > 0 then PosInf else NegInf)"
| "js_divide (Num a) y = Num 0"
| "js_divide x (Num b) =
     (if js_sign x * (if b < 0 then - 1 else 1) > 0 then PosInf else NegInf)"
| "js_divide x y = NaN"

text \<open>\<open>d || 0\<close> for an optional number: \<open>undefined\<close>, \<open>0\<close> and \<open>NaN\<close> are falsy.\<close>

fun js_or_zero :: "number option \<Rightarrow> number" where
  "js_or_zero None = Num 0"
| "js_or_zero (Some d) = (if d = NaN \<or> d = Num 0 then Num 0 else d)"

text \<open>
  \<open>Number.prototype.toString\<close> and \<open>parseFloat\<close> belong to the language, not to
  the player, and a real has no finite decimal text in general: the two functions are
  taken as they come, in a record that the session carries.
\<close>

record runtime =
  toString :: "number \<Rightarrow> string"
  parseFloat :: "string \<Rightarrow> number"

section \<open>Data model\<close>

record song =
  song_id :: string
  title :: string
  artist :: "string option"
  album :: "string option"
  audioUrl :: string
  song_duration :: "number option"
  peaks :: "real list option"

record AudioPlayerState =
  currentSong :: "song option"
  isPlaying :: bool
  currentTime :: number
  duration :: number
  volume :: number
  displayVolume :: number
  isFadingIn :: bool

record AudioPlayerConfig =
  fadeInEnabled :: bool
  fadeInDuration :: number
  persistVolume :: bool
  storageKey :: string
  defaultVolume :: number

definition DEFAULT_CONFIG :: AudioPlayerConfig where
  "DEFAULT_CONFIG =
     \<lparr>fadeInEnabled = True, fadeInDuration = Num 3000, persistVolume = True,
      storageKey = ''audioPlayerVolume'', defaultVolume = Num 1\<rparr>"

definition FADE_STEPS :: nat where
  "FADE_STEPS = 30"

definition MIN_FADE_IN_VOLUME :: number where
  "MIN_FADE_IN_VOLUME = Num (1 / 10)"

text \<open>The four lifecycle callbacks of the configuration are recorded when they are invoked.\<close>

datatype callback = OnPlay song | OnPause | OnEnd | OnTimeUpdate number

subsection \<open>The audio element\<close>

text \<open>
  The \<open>HTMLAudioElement\<close> is the browser's. The model keeps what the player writes to
  it: the source locator, the volume, the position last assigned, and whether the last
  request was to pause. Its setters for \<open>volume\<close> and \<open>currentTime\<close> are those of the
  HTML standard: a value that is not finite is a \<open>TypeError\<close>, a volume outside
  \<open>[0,1]\<close> an \<open>IndexSizeError\<close>. What position the element really takes after an
  assignment is its own business and is reported by its next \<open>timeupdate\<close>.
\<close>

datatype error = TypeError | IndexSizeError

record audio =
  src :: string
  el_volume :: number
  el_currentTime :: number
  el_duration :: number
  paused :: bool

definition new_Audio :: audio where
  "new_Audio = \<lparr>src = [], el_volume = Num 1, el_currentTime = Num 0, el_duration = NaN,
                 paused = True\<rparr>"

fun set_volume :: "number \<Rightarrow> audio \<Rightarrow> error + audio" where
  "set_volume (Num r) a =
     (if 0 \<le> r \<and> r \<le> 1 then Inr (a\<lparr>el_volume := Num r\<rparr>) else Inl IndexSizeError)"
| "set_volume v a = Inl TypeError"

fun set_currentTime :: "number \<Rightarrow> audio \<Rightarrow> error + audio" where
  "set_currentTime (Num r) a = Inr (a\<lparr>el_currentTime := Num r\<rparr>)"
| "set_currentTime v a = Inl TypeError"

definition el_play :: "audio \<Rightarrow> audio" where
  "el_play a = a\<lparr>paused := False\<rparr>"

definition el_pause :: "audio \<Rightarrow> audio" where
  "el_pause a = a\<lparr>paused := True\<rparr>"

subsection \<open>The session\<close>

text \<open>
  \<open>fadeIntervalRef\<close> holds the running interval with what its callback has captured:
  the step counter, the increment and the target. A start request that the element has
  not yet confirmed or denied is a pending continuation, with the song (or track id)
  and the target volume it has captured.
\<close>

record fade_interval =
  fadeStepDuration :: number
  volumeStep :: number
  targetVolume :: number
  currentStep :: nat

datatype continuation = PlayK song number | ToggleK string number

record session =
  js :: runtime
  config :: AudioPlayerConfig
  state :: AudioPlayerState
  audioRef :: "audio option"
  fadeIntervalRef :: "fade_interval option"
  localStorage :: "string \<rightharpoonup> string"
  dispatched :: "string list"
  callbacks :: "callback list"
  thrown :: "error list"
  pending :: "continuation list"

section \<open>The provider\<close>

text \<open>
  Every function below is one handler of \<open>AudioPlayerProvider\<close>, run to its end before
  the next event. \<open>setState\<close> with an updater is the record update it describes. The
  test \<open>typeof window !== 'undefined'\<close> holds in a browser and is left out.

  \<open>play\<close> and \<open>togglePlay\<close> read \<open>state.volume\<close>, \<open>state.currentSong\<close> and
  \<open>state.isPlaying\<close> from the render that created the callback. Below, \<open>play\<close> and
  \<open>togglePlay\<close> are the callbacks of the current render, which read the current
  state; \<open>play_at\<close> and \<open>togglePlay_at\<close> are the callbacks of any render, given the
  state that this render saw. The other handlers read no state.
\<close>

definition setState :: "(AudioPlayerState \<Rightarrow> AudioPlayerState) \<Rightarrow> session \<Rightarrow> session" where
  "setState f s = s\<lparr>state := f (state s)\<rparr>"

definition throw :: "error \<Rightarrow> session \<Rightarrow> session" where
  "throw e s = s\<lparr>thrown := thrown s @ [e]\<rparr>"

definition initialState :: "AudioPlayerConfig \<Rightarrow> AudioPlayerState" where
  "initialState cfg =
     \<lparr>currentSong = None, isPlaying = False, currentTime = Num 0, duration = Num 0,
      volume = defaultVolume cfg, displayVolume = defaultVolume cfg, isFadingIn = False\<rparr>"

text \<open>
  The first render and the mount effect: the element is created and the saved volume is
  read. \<open>getItem\<close> gives \<open>null\<close> for a missing key; \<open>null\<close> and the empty string
  are falsy.
\<close>

definition AudioPlayerProvider ::
  "runtime \<Rightarrow> AudioPlayerConfig \<Rightarrow> (string \<rightharpoonup> string) \<Rightarrow> session" where
  "AudioPlayerProvider rt cfg store =
     (let s0 = \<lparr>js = rt, config = cfg, state = initialState cfg, audioRef = Some new_Audio,
                fadeIntervalRef = None, localStorage = store, dispatched = [],
                callbacks = [], thrown = [], pending = []\<rparr>
      in if persistVolume cfg then
           (case store (storageKey cfg) of
              None \<Rightarrow> s0
            | Some savedVolume \<Rightarrow>
                if savedVolume \<noteq> [] then
                  (let vol = parseFloat rt savedVolume
                   in if \<not> isNaN vol \<and> js_ge vol (Num 0) \<and> js_le vol (Num 1) then
                        (setState (\<lambda>st. st\<lparr>volume := vol, displayVolume := vol\<rparr>) s0)
                          \<lparr>audioRef := Some (new_Audio\<lparr>el_volume := vol\<rparr>)\<rparr>
                      else s0)
                else s0)
         else s0)"

subsection \<open>Callbacks of the audio element\<close>

definition handleTimeUpdate :: "session \<Rightarrow> session" where
  "handleTimeUpdate s =
     (case audioRef s of
        None \<Rightarrow> s
      | Some a \<Rightarrow>
          (setState (\<lambda>st. st\<lparr>currentTime := el_currentTime a\<rparr>) s)
            \<lparr>callbacks := callbacks s @ [OnTimeUpdate (el_currentTime a)]\<rparr>)"

definition handleLoadedMetadata :: "session \<Rightarrow> session" where
  "handleLoadedMetadata s =
     (case audioRef s of
        None \<Rightarrow> s
      | Some a \<Rightarrow> setState (\<lambda>st. st\<lparr>duration := el_duration a\<rparr>) s)"

definition handleEnded :: "session \<Rightarrow> session" where
  "handleEnded s =
     (setState (\<lambda>st. st\<lparr>isPlaying := False, currentTime := Num 0\<rparr>) s)
       \<lparr>callbacks := callbacks s @ [OnEnd]\<rparr>"

definition handlePlay :: "session \<Rightarrow> session" where
  "handlePlay s = setState (\<lambda>st. st\<lparr>isPlaying := True\<rparr>) s"

definition handlePause :: "session \<Rightarrow> session" where
  "handlePause s = setState (\<lambda>st. st\<lparr>isPlaying := False\<rparr>) s"

subsection \<open>The fade\<close>

definition clearFade :: "session \<Rightarrow> session" where
  "clearFade s = (case fadeIntervalRef s of None \<Rightarrow> s | Some t \<Rightarrow> s\<lparr>fadeIntervalRef := None\<rparr>)"

definition fadeInVolume :: "number \<Rightarrow> session \<Rightarrow> session" where
  "fadeInVolume target s =
     (case audioRef s of
        None \<Rightarrow> s
      | Some a \<Rightarrow>
          (let s1 = clearFade s;
               s2 = setState (\<lambda>st. st\<lparr>isFadingIn := True, displayVolume := Num 0\<rparr>) s1
           in s2\<lparr>fadeIntervalRef :=
                   Some \<lparr>fadeStepDuration =
                           js_divide (fadeInDuration (config s)) (Num (real FADE_STEPS)),
                         volumeStep = js_divide target (Num (real FADE_STEPS)),
                         targetVolume = target, currentStep = 0\<rparr>\<rparr>))"

text \<open>
  One run of the interval's callback. Without a live interval nothing fires. When the
  element refuses the volume, the callback ends there: only the counter has moved.
\<close>

definition fade_tick :: "session \<Rightarrow> session" where
  "fade_tick s =
     (case fadeIntervalRef s of
        None \<Rightarrow> s
      | Some t \<Rightarrow>
          (let step = currentStep t + 1;
               s1 = s\<lparr>fadeIntervalRef := Some (t\<lparr>currentStep := step\<rparr>)\<rparr>;
               newVolume = Math_min (js_times (volumeStep t) (Num (real step))) (targetVolume t);
               r = (case audioRef s1 of
                      None \<Rightarrow> Inr s1
                    | Some a \<Rightarrow>
                        (case set_volume newVolume a of
                           Inl e \<Rightarrow> Inl e
                         | Inr a' \<Rightarrow> Inr (s1\<lparr>audioRef := Some a'\<rparr>)))
           in case r of
                Inl e \<Rightarrow> throw e s1
              | Inr s2 \<Rightarrow>
                  (let s3 = setState (\<lambda>st. st\<lparr>displayVolume := newVolume\<rparr>) s2
                   in if step \<ge> FADE_STEPS then
                        setState (\<lambda>st. st\<lparr>isFadingIn := False, displayVolume := targetVolume t\<rparr>)
                          (clearFade s3)
                      else s3)))"

subsection \<open>Actions\<close>

text \<open>
  \<open>play\<close> up to its \<open>await\<close>. An error before the \<open>await\<close> rejects the promise that
  \<open>play\<close> returns, which nobody handles: it is recorded as thrown.
\<close>

definition play :: "song \<Rightarrow> session \<Rightarrow> session" where
  "play sg s =
     (case audioRef s of
        None \<Rightarrow> s
      | Some a0 \<Rightarrow>
          (let s1 = clearFade s;
               s2 = (if map_option song_id (currentSong (state s)) \<noteq> Some (song_id sg) then
                       (setState (\<lambda>st. st\<lparr>currentSong := Some sg, currentTime := Num 0,
                                              duration := js_or_zero (song_duration sg)\<rparr>) s1)
                         \<lparr>audioRef := Some (a0\<lparr>src := audioUrl sg\<rparr>)\<rparr>
                     else s1);
               target = Math_max (volume (state s)) MIN_FADE_IN_VOLUME;
               initial = (if fadeInEnabled (config s) then Num 0 else target)
           in case audioRef s2 of
                None \<Rightarrow> s2
              | Some a \<Rightarrow>
                  (case set_volume initial a of
                     Inl e \<Rightarrow> throw e s2
                   | Inr a' \<Rightarrow>
                       s2\<lparr>audioRef := Some (el_play a'),
                          pending := pending s2 @ [PlayK sg target]\<rparr>)))"

definition pause :: "session \<Rightarrow> session" where
  "pause s =
     (case audioRef s of
        None \<Rightarrow> s
      | Some a0 \<Rightarrow>
          (let s1 = clearFade s
           in s1\<lparr>audioRef := Some (el_pause a0), callbacks := callbacks s1 @ [OnPause]\<rparr>))"

definition togglePlay :: "session \<Rightarrow> session" where
  "togglePlay s =
     (case audioRef s of
        None \<Rightarrow> s
      | Some a0 \<Rightarrow>
          (case currentSong (state s) of
             None \<Rightarrow> s
           | Some cur \<Rightarrow>
               if isPlaying (state s) then pause s
               else
                 (let target = Math_max (volume (state s)) MIN_FADE_IN_VOLUME;
                      r = (if fadeInEnabled (config s) then set_volume (Num 0) a0 else Inr a0)
                  in case r of
                       Inl e \<Rightarrow> throw e s
                     | Inr a \<Rightarrow>
                         s\<lparr>audioRef := Some (el_play a),
                           pending := pending s @ [ToggleK (song_id cur) target]\<rparr>)))"

definition seek :: "number \<Rightarrow> session \<Rightarrow> session" where
  "seek time s =
     (case audioRef s of
        None \<Rightarrow> s
      | Some a0 \<Rightarrow>
          (case set_currentTime time a0 of
             Inl e \<Rightarrow> throw e s
           | Inr a \<Rightarrow>
               setState (\<lambda>st. st\<lparr>currentTime := time\<rparr>) (s\<lparr>audioRef := Some a\<rparr>)))"

definition setVolume :: "number \<Rightarrow> session \<Rightarrow> session" where
  "setVolume v s =
     (case audioRef s of
        None \<Rightarrow> s
      | Some a0 \<Rightarrow>
          (let clampedVolume = Math_max (Num 0) (Math_min (Num 1) v);
               s1 = (case fadeIntervalRef s of
                       None \<Rightarrow> s
                     | Some t \<Rightarrow> setState (\<lambda>st. st\<lparr>isFadingIn := False\<rparr>) (clearFade s))
           in case set_volume clampedVolume a0 of
                Inl e \<Rightarrow> throw e s1
              | Inr a \<Rightarrow>
                  (let s2 = s1\<lparr>audioRef := Some a\<rparr>;
                       s3 = (if persistVolume (config s) then
                               s2\<lparr>localStorage :=
                                     (localStorage s2)
                                       (storageKey (config s) \<mapsto> toString (js s) clampedVolume)\<rparr>
                             else s2)
                   in setState (\<lambda>st. st\<lparr>volume := clampedVolume,
                                            displayVolume := clampedVolume\<rparr>) s3)))"

definition stop :: "session \<Rightarrow> session" where
  "stop s =
     (case audioRef s of
        None \<Rightarrow> s
      | Some a0 \<Rightarrow>
          (let s1 = clearFade s;
               a1 = el_pause a0
           in case set_currentTime (Num 0) a1 of
                Inl e \<Rightarrow> throw e (s1\<lparr>audioRef := Some a1\<rparr>)
              | Inr a2 \<Rightarrow>
                  setState (\<lambda>st. st\<lparr>currentSong := None, isPlaying := False,
                                         currentTime := Num 0, duration := Num 0,
                                         isFadingIn := False\<rparr>)
                    (s1\<lparr>audioRef := Some (a2\<lparr>src := []\<rparr>)\<rparr>)))"

subsection \<open>Callbacks of an earlier render\<close>

text \<open>
  \<open>play\<close> and \<open>togglePlay\<close> as a render that saw the state \<open>r\<close> has created them:
  what the source reads from \<open>state\<close> is read from \<open>r\<close>, and the updaters of
  \<open>setState\<close> and the refs work on the session as it is. A caller that calls twice in
  one handler, or keeps a callback, calls these with an \<open>r\<close> that is no longer the
  state.
\<close>

definition play_at :: "AudioPlayerState \<Rightarrow> song \<Rightarrow> session \<Rightarrow> session" where
  "play_at r sg s =
     (case audioRef s of
        None \<Rightarrow> s
      | Some a0 \<Rightarrow>
          (let s1 = clearFade s;
               s2 = (if map_option song_id (currentSong r) \<noteq> Some (song_id sg) then
                       (setState (\<lambda>st. st\<lparr>currentSong := Some sg, currentTime := Num 0,
                                              duration := js_or_zero (song_duration sg)\<rparr>) s1)
                         \<lparr>audioRef := Some (a0\<lparr>src := audioUrl sg\<rparr>)\<rparr>
                     else s1);
               target = Math_max (volume r) MIN_FADE_IN_VOLUME;
               initial = (if fadeInEnabled (config s) then Num 0 else target)
           in case audioRef s2 of
                None \<Rightarrow> s2
              | Some a \<Rightarrow>
                  (case set_volume initial a of
                     Inl e \<Rightarrow> throw e s2
                   | Inr a' \<Rightarrow>
                       s2\<lparr>audioRef := Some (el_play a'),
                          pending := pending s2 @ [PlayK sg target]\<rparr>)))"

definition togglePlay_at :: "AudioPlayerState \<Rightarrow> session \<Rightarrow> session" where
  "togglePlay_at r s =
     (case audioRef s of
        None \<Rightarrow> s
      | Some a0 \<Rightarrow>
          (case currentSong r of
             None \<Rightarrow> s
           | Some cur \<Rightarrow>
               if isPlaying r then pause s
               else
                 (let target = Math_max (volume r) MIN_FADE_IN_VOLUME;
                      r0 = (if fadeInEnabled (config s) then set_volume (Num 0) a0 else Inr a0)
                  in case r0 of
                       Inl e \<Rightarrow> throw e s
                     | Inr a \<Rightarrow>
                         s\<lparr>audioRef := Some (el_play a),
                           pending := pending s @ [ToggleK (song_id cur) target]\<rparr>)))"

subsection \<open>The element answers a start request\<close>

text \<open>
  What runs after the \<open>await\<close> of \<open>play\<close>, and in the \<open>then\<close> of \<open>togglePlay\<close>, once
  the element has confirmed the start. A denial runs the empty \<open>catch\<close>.
\<close>

fun resume :: "continuation \<Rightarrow> session \<Rightarrow> session" where
  "resume (PlayK sg target) s =
     (let s1 = s\<lparr>dispatched := dispatched s @ [song_id sg]\<rparr>;
          s2 = (if fadeInEnabled (config s1) then fadeInVolume target s1 else s1)
      in s2\<lparr>callbacks := callbacks s2 @ [OnPlay sg]\<rparr>)"
| "resume (ToggleK tid target) s =
     (let s1 = s\<lparr>dispatched := dispatched s @ [tid]\<rparr>
      in if fadeInEnabled (config s1) then fadeInVolume target s1 else s1)"

definition settle :: "bool \<Rightarrow> nat \<Rightarrow> session \<Rightarrow> session" where
  "settle ok i s =
     (if i < length (pending s) then
        (let k = pending s ! i;
             s1 = s\<lparr>pending := take i (pending s) @ drop (Suc i) (pending s)\<rparr>
         in if ok then resume k s1 else s1)
      else s)"

subsection \<open>Events\<close>

datatype event =
    Play song | Pause | TogglePlay | Seek number | SetVolume number | Stop
  | FadeTick | Settle bool nat
  | TimeUpdate number | LoadedMetadata number | Ended | SourcePlay | SourcePause
  | PlayFrom AudioPlayerState song | ToggleFrom AudioPlayerState

text \<open>
  \<open>Play\<close> and \<open>TogglePlay\<close> are calls through the callbacks of the current render:
  the component has re-rendered since the last change of state. \<open>PlayFrom r\<close> and
  \<open>ToggleFrom r\<close> are calls through the callbacks of a render that saw the state
  \<open>r\<close>: a second call in one handler, before the re-render, is one of these.
  \<open>TimeUpdate t\<close> and \<open>LoadedMetadata d\<close>: the element has come to position \<open>t\<close>,
  or has learnt its duration \<open>d\<close>, and fires the event.
\<close>

fun step :: "event \<Rightarrow> session \<Rightarrow> session" where
  "step (Play sg) s = play sg s"
| "step Pause s = pause s"
| "step TogglePlay s = togglePlay s"
| "step (Seek t) s = seek t s"
| "step (SetVolume v) s = setVolume v s"
| "step Stop s = stop s"
| "step FadeTick s = fade_tick s"
| "step (Settle ok i) s = settle ok i s"
| "step (TimeUpdate t) s =
     handleTimeUpdate (s\<lparr>audioRef := map_option (\<lambda>a. a\<lparr>el_currentTime := t\<rparr>) (audioRef s)\<rparr>)"
| "step (LoadedMetadata d) s =
     handleLoadedMetadata (s\<lparr>audioRef := map_option (\<lambda>a. a\<lparr>el_duration := d\<rparr>) (audioRef s)\<rparr>)"
| "step Ended s = handleEnded s"
| "step SourcePlay s = handlePlay s"
| "step SourcePause s = handlePause s"
| "step (PlayFrom r sg) s = play_at r sg s"
| "step (ToggleFrom r) s = togglePlay_at r s"

text \<open>
  A run handles one event after the other, the updates of each applied before the next.
  Whether the component has re-rendered between two calls shows in the events: \<open>Play\<close>
  after a re-render, \<open>PlayFrom r\<close> before it.
\<close>

fun run :: "event list \<Rightarrow> session \<Rightarrow> session" where
  "run [] s = s"
| "run (e # es) s = run es (step e s)"

definition ticks :: "nat \<Rightarrow> session \<Rightarrow> session" where
  "ticks n s = (fade_tick ^^ n) s"

text \<open>The value \<open>min (k * (t / 30)) t\<close> that step \<open>k\<close> of a fade to \<open>t\<close> puts out.\<close>

definition ramp :: "real \<Rightarrow> nat \<Rightarrow> number" where
  "ramp t k = Num (min ((t / 30) * real k) t)"

subsection \<open>Sequences of events that keep the volume invariant\<close>



section \<open>Standalone players and the broadcast\<close>

text \<open>
  A \<open>WaveformPlayer\<close> in standalone mode owns a private audio element and listens to
  the window event that the provider and the standalone players dispatch when they
  start. The provider registers no listener for it. \<open>dispatchEvent\<close> runs the
  listeners before it returns.
\<close>

record standalone =
  sp_song :: song
  localAudioRef :: "audio option"
  localIsPlaying :: bool
  localCurrentTime :: number
  totalDuration :: number

definition WaveformPlayer :: "song \<Rightarrow> standalone" where
  "WaveformPlayer sg =
     \<lparr>sp_song = sg, localAudioRef = Some new_Audio, localIsPlaying = False,
      localCurrentTime = Num 0, totalDuration = js_or_zero (song_duration sg)\<rparr>"

definition handleOtherPlayerPlay :: "string \<Rightarrow> standalone \<Rightarrow> standalone" where
  "handleOtherPlayerPlay detail p =
     (case localAudioRef p of
        None \<Rightarrow> p
      | Some a \<Rightarrow>
          if detail \<noteq> song_id (sp_song p) then
            p\<lparr>localAudioRef := Some (el_pause a), localIsPlaying := False\<rparr>
          else p)"

definition broadcast :: "string \<Rightarrow> standalone list \<Rightarrow> standalone list" where
  "broadcast detail ps = map (handleOtherPlayerPlay detail) ps"

record page =
  provider :: session
  players :: "standalone list"

text \<open>The click on the play button of the standalone player at index \<open>i\<close>.\<close>

definition handlePlayClick :: "nat \<Rightarrow> page \<Rightarrow> page" where
  "handlePlayClick i pg =
     (if i < length (players pg) then
        (let p = players pg ! i
         in if song_id (sp_song p) = [] \<or> audioUrl (sp_song p) = [] then pg
            else
              (case localAudioRef p of
                 None \<Rightarrow> pg
               | Some a \<Rightarrow>
                   if localIsPlaying p then
                     pg\<lparr>players :=
                          (players pg)[i := p\<lparr>localAudioRef := Some (el_pause a),
                                               localIsPlaying := False\<rparr>]\<rparr>
                   else
                     (let ps = broadcast (song_id (sp_song p)) (players pg);
                          p1 = ps ! i
                      in case localAudioRef p1 of
                           None \<Rightarrow> pg\<lparr>players := ps\<rparr>
                         | Some a1 \<Rightarrow>
                             (let a2 = (if src a1 \<noteq> audioUrl (sp_song p)
                                        then a1\<lparr>src := audioUrl (sp_song p)\<rparr> else a1)
                              in pg\<lparr>players :=
                                     ps[i := p1\<lparr>localAudioRef := Some (el_play a2),
                                                  localIsPlaying := True\<rparr>]\<rparr>))))
      else pg)"

text \<open>An event of the provider, with the delivery of what it dispatches.\<close>

definition provider_step :: "event \<Rightarrow> page \<Rightarrow> page" where
  "provider_step e pg =
     (let s' = step e (provider pg);
          news = drop (length (dispatched (provider pg))) (dispatched s')
      in pg\<lparr>provider := s', players := foldl (\<lambda>ps d. broadcast d ps) (players pg) news\<rparr>)"

section \<open>Concrete sessions\<close>

text \<open>
  A runtime tabulated on the numbers that the examples store, and the song of the test
  suite.
\<close>

definition sample_runtime :: runtime where
  "sample_runtime =
     \<lparr>toString =
        (\<lambda>n. if n = Num 0 then ''0'' else if n = Num (42 / 100) then ''0.42''
             else if n = Num (1 / 2) then ''0.5'' else if n = Num (8 / 10) then ''0.8''
             else if n = Num 1 then ''1'' else ''NaN''),
      parseFloat =
        (\<lambda>t. if t = ''0'' then Num 0 else if t = ''0.42'' then Num (42 / 100)
             else if t = ''0.5'' then Num (1 / 2) else if t = ''0.8'' then Num (8 / 10)
             else if t = ''1'' then Num 1 else NaN)\<rparr>"

definition sample_song :: song where
  "sample_song =
     \<lparr>song_id = ''test-1'', title = ''Test Song'', artist = Some ''Test Artist'',
      album = None, audioUrl = ''https://example.com/song.mp3'',
      song_duration = Some (Num 180), peaks = None\<rparr>"

definition other_song :: song where
  "other_song =
     \<lparr>song_id = ''test-2'', title = ''Other Song'', artist = None,
      album = None, audioUrl = ''https://example.com/other.mp3'',
      song_duration = None, peaks = None\<rparr>"

definition fresh :: session where
  "fresh = AudioPlayerProvider sample_runtime DEFAULT_CONFIG Map.empty"

definition fresh_nofade :: session where
  "fresh_nofade =
     AudioPlayerProvider sample_runtime (DEFAULT_CONFIG\<lparr>fadeInEnabled := False\<rparr>) Map.empty"

text \<open>A session one step into its fade.\<close>

definition mid_fade :: session where
  "mid_fade = run [Play sample_song, SourcePlay, Settle True 0, FadeTick] fresh"

text \<open>A session without fade that plays the sample song, of duration 180.\<close>

definition loaded_nofade :: session where
  "loaded_nofade =
     run [Play sample_song, SourcePlay, Settle True 0, LoadedMetadata (Num 180)] fresh_nofade"

text \<open>A session without fade, muted and then started.\<close>

definition muted_nofade :: session where
  "muted_nofade =
     run [SetVolume (Num 0), Play sample_song, SourcePlay, Settle True 0] fresh_nofade"

definition half_config :: AudioPlayerConfig where
  "half_config = DEFAULT_CONFIG\<lparr>defaultVolume := Num (1 / 2)\<rparr>"

subsection \<open>A start that the element confirms\<close>

text \<open>
  \<open>play(track)\<close>, the element's \<open>play\<close> event, and the confirmation of the request
  that this call has made; the same for the resume branch of \<open>togglePlay\<close>.
\<close>

definition play_confirmed :: "song \<Rightarrow> session \<Rightarrow> session" where
  "play_confirmed sg s = settle True (length (pending s)) (handlePlay (play sg s))"


text \<open>The default session after \<open>setVolume(0.8)\<close>.\<close>

definition vol80 :: session where
  "vol80 = setVolume (Num (8 / 10)) fresh"

subsection \<open>The invariant behind the volume shown\<close>








subsection \<open>Pages\<close>

text \<open>
  The provider plays a song and the element confirms, with the delivery of the
  broadcast; a page where a standalone player is started while the provider plays; and
  a page with two standalone players.
\<close>

definition provider_plays :: "song \<Rightarrow> page \<Rightarrow> page" where
  "provider_plays sg pg =
     provider_step (Settle True (length (pending (provider pg))))
       (provider_step SourcePlay (provider_step (Play sg) pg))"

definition mixed_page :: page where
  "mixed_page =
     handlePlayClick 0
       (provider_plays sample_song
          \<lparr>provider = fresh_nofade, players = [WaveformPlayer other_song]\<rparr>)"

definition two_players :: page where
  "two_players =
     \<lparr>provider = fresh, players = [WaveformPlayer sample_song, WaveformPlayer other_song]\<rparr>"

section \<open>Basic facts\<close>

lemmas action_defs = play_def pause_def togglePlay_def seek_def setVolume_def stop_def
  play_at_def togglePlay_at_def
  settle_def fadeInVolume_def clearFade_def setState_def throw_def handlePlay_def handlePause_def
  handleEnded_def handleTimeUpdate_def handleLoadedMetadata_def el_play_def el_pause_def
  Let_def

lemmas sample_defs = fresh_def fresh_nofade_def mid_fade_def AudioPlayerProvider_def
  initialState_def new_Audio_def DEFAULT_CONFIG_def MIN_FADE_IN_VOLUME_def FADE_STEPS_def
  isNaN_def js_ge_def sample_song_def other_song_def fade_tick_def

lemma Math_max_Num [simp]: "Math_max (Num a) (Num b) = Num (max a b)"
  by (simp add: Math_max_def max_def)

lemma Math_min_Num [simp]: "Math_min (Num a) (Num b) = Num (min a b)"
  by (simp add: Math_min_def min_def)

section \<open>The frame of pause\<close>

text \<open>
  C10. \<open>pause()\<close> leaves every field of the playback state as it was, also in the middle
  of a fade: it clears the fade interval, asks the element to pause and invokes the
  on-pause callback; nothing is dispatched, stored, thrown or left pending. \<open>isPlaying\<close>
  is cleared by the element's own pause event.
\<close>

theorem pause_frame:
  "state (pause s) = state s
   \<and> audioRef (pause s) = map_option el_pause (audioRef s)
   \<and> localStorage (pause s) = localStorage s \<and> dispatched (pause s) = dispatched s
   \<and> pending (pause s) = pending s \<and> thrown (pause s) = thrown s
   \<and> config (pause s) = config s
   \<and> (audioRef s \<noteq> None \<longrightarrow>
        fadeIntervalRef (pause s) = None \<and> callbacks (pause s) = callbacks s @ [OnPause])
   \<and> state (handlePause (pause s)) = (state s)\<lparr>isPlaying := False\<rparr>"
  by (simp add: pause_def clearFade_def handlePause_def setState_def Let_def
      split: option.splits)

theorem pause_frame_witness:
  "audioRef mid_fade \<noteq> None \<and> fadeIntervalRef mid_fade \<noteq> None
   \<and> isFadingIn (state (pause mid_fade))
   \<and> displayVolume (state (pause mid_fade)) = Num (1 / 30)
   \<and> volume (state (pause mid_fade)) = Num 1
   \<and> fadeIntervalRef (pause mid_fade) = None
   \<and> callbacks (pause mid_fade) = [OnPlay sample_song, OnPause]"
proof -
  have m: "audioRef mid_fade \<noteq> None" "fadeIntervalRef mid_fade \<noteq> None"
    by (simp_all add: action_defs sample_defs)
  have st: "isFadingIn (state mid_fade)" "displayVolume (state mid_fade) = Num (1 / 30)"
    "volume (state mid_fade) = Num 1" "callbacks mid_fade = [OnPlay sample_song]"
    by (simp_all add: action_defs sample_defs)
  show ?thesis
    using pause_frame [of mid_fade] m st by simp
qed

section \<open>Seeking\<close>

text \<open>
  C6, as the claim states it, fails: \<open>seek\<close> writes the time it is given to the element
  and to \<open>currentTime\<close> with no clamping, so a negative time, or one beyond the duration,
  is what \<open>currentTime\<close> holds afterwards.
\<close>

theorem seek_out_of_range_counterexample:
  "duration (state loaded_nofade) = Num 180
   \<and> currentTime (state (seek (Num (- 5)) loaded_nofade)) = Num (- 5)
   \<and> \<not> js_le (Num 0) (currentTime (state (seek (Num (- 5)) loaded_nofade)))
   \<and> currentTime (state (seek (Num 500) loaded_nofade)) = Num 500
   \<and> duration (state (seek (Num 500) loaded_nofade)) = Num 180
   \<and> \<not> js_le (currentTime (state (seek (Num 500) loaded_nofade)))
           (duration (state (seek (Num 500) loaded_nofade)))
   \<and> thrown (seek (Num (- 5)) loaded_nofade) = []
   \<and> thrown (seek (Num 500) loaded_nofade) = []"
  by (simp add: loaded_nofade_def action_defs sample_defs)

text \<open>
  C6, amended. On a mounted session \<open>seek(t)\<close> with a finite \<open>t\<close> sets \<open>currentTime\<close>,
  and the position asked of the element, to \<open>t\<close> itself, at once and without clamping:
  the result lies in \<open>[0, duration]\<close> exactly when \<open>t\<close> does. With \<open>NaN\<close> or an
  infinity the element's setter throws and the state keeps its \<open>currentTime\<close>.
\<close>

theorem seek_unclamped:
  assumes "audioRef s = Some a"
  shows "currentTime (state (seek (Num t) s)) = Num t
         \<and> map_option el_currentTime (audioRef (seek (Num t) s)) = Some (Num t)
         \<and> thrown (seek (Num t) s) = thrown s
         \<and> ((js_le (Num 0) (currentTime (state (seek (Num t) s)))
              \<and> js_le (currentTime (state (seek (Num t) s))) (duration (state (seek (Num t) s))))
             = (js_le (Num 0) (Num t) \<and> js_le (Num t) (duration (state s))))
         \<and> state (seek NaN s) = state s \<and> thrown (seek NaN s) = thrown s @ [TypeError]
         \<and> state (seek PosInf s) = state s \<and> thrown (seek PosInf s) = thrown s @ [TypeError]
         \<and> state (seek NegInf s) = state s \<and> thrown (seek NegInf s) = thrown s @ [TypeError]"
  using assms by (simp add: seek_def setState_def throw_def)

theorem seek_unclamped_witness:
  "audioRef fresh \<noteq> None
   \<and> currentTime (state (seek (Num 200) fresh)) = Num 200
   \<and> duration (state (seek (Num 200) fresh)) = Num 0
   \<and> thrown (seek NaN fresh) = [TypeError]"
proof -
  have m: "audioRef fresh = Some new_Audio" "thrown fresh = []"
    by (simp_all add: sample_defs)
  have d: "duration (state (seek (Num 200) fresh)) = Num 0"
    by (simp add: action_defs sample_defs)
  show ?thesis
    using seek_unclamped [OF m(1), of 200] m d by simp
qed

section \<open>A denied start\<close>

text \<open>
  C5. When the element denies the start that \<open>play(track)\<close> has requested, the empty
  \<open>catch\<close> runs: no error is surfaced, nothing is dispatched, no fade interval is
  started and on-play is not invoked. The volume is taken in \<open>[0,1]\<close>, where the
  element accepts the initial volume that \<open>play\<close> sets before the request.
\<close>

theorem start_denied_silent:
  assumes "audioRef s = Some a" "volume (state s) = Num v" "0 \<le> v" "v \<le> 1"
  shows "dispatched (settle False (length (pending s)) (play sg s)) = dispatched s
         \<and> callbacks (settle False (length (pending s)) (play sg s)) = callbacks s
         \<and> fadeIntervalRef (settle False (length (pending s)) (play sg s)) = None
         \<and> thrown (settle False (length (pending s)) (play sg s)) = thrown s
         \<and> pending (settle False (length (pending s)) (play sg s)) = pending s
         \<and> pending (play sg s) = pending s @ [PlayK sg (Num (max v (1 / 10)))]
         \<and> isFadingIn (state (settle False (length (pending s)) (play sg s)))
             = isFadingIn (state s)
         \<and> displayVolume (state (settle False (length (pending s)) (play sg s)))
             = displayVolume (state s)
         \<and> volume (state (settle False (length (pending s)) (play sg s))) = Num v
         \<and> localStorage (settle False (length (pending s)) (play sg s)) = localStorage s"
proof -
  have "0 \<le> max v (1 / 10)" "max v (1 / 10) \<le> 1"
    using assms(3,4) by simp_all
  then show ?thesis
    using assms(1,2)
    by (simp add: action_defs MIN_FADE_IN_VOLUME_def split: option.splits)
qed

theorem start_denied_silent_witness:
  "audioRef fresh \<noteq> None \<and> volume (state fresh) = Num 1
   \<and> dispatched (settle False 0 (play sample_song fresh)) = []
   \<and> callbacks (settle False 0 (play sample_song fresh)) = []
   \<and> fadeIntervalRef (settle False 0 (play sample_song fresh)) = None
   \<and> thrown (settle False 0 (play sample_song fresh)) = []
   \<and> pending (play sample_song fresh) = [PlayK sample_song (Num 1)]
   \<and> pending (settle False 0 (play sample_song fresh)) = []"
proof -
  have m: "audioRef fresh = Some new_Audio" "volume (state fresh) = Num 1"
    "pending fresh = []" "dispatched fresh = []" "callbacks fresh = []" "thrown fresh = []"
    by (simp_all add: sample_defs)
  show ?thesis
    using start_denied_silent [OF m(1) m(2), of sample_song] m by simp
qed

section \<open>Play without fade\<close>

text \<open>
  Without fade, a confirmed \<open>play\<close> puts the element at \<open>max(volume, 0.1)\<close> and leaves
  \<open>displayVolume\<close> where it was.
\<close>

lemma play_without_fade:
  assumes "audioRef s = Some a" "\<not> fadeInEnabled (config s)" "volume (state s) = Num v"
    "0 \<le> v" "v \<le> 1"
  shows "isPlaying (state (run [Play sg, SourcePlay, Settle True (length (pending s))] s))
         \<and> displayVolume (state (run [Play sg, SourcePlay, Settle True (length (pending s))] s))
             = displayVolume (state s)
         \<and> map_option el_volume
              (audioRef (run [Play sg, SourcePlay, Settle True (length (pending s))] s))
             = Some (Num (max v (1 / 10)))
         \<and> isFadingIn (state (run [Play sg, SourcePlay, Settle True (length (pending s))] s))
             = isFadingIn (state s)
         \<and> fadeIntervalRef (run [Play sg, SourcePlay, Settle True (length (pending s))] s) = None"
proof -
  have "0 \<le> max v (1 / 10)" "max v (1 / 10) \<le> 1"
    using assms(4,5) by simp_all
  then show ?thesis
    using assms(1,2,3)
    by (simp add: action_defs MIN_FADE_IN_VOLUME_def split: option.splits)
qed

text \<open>
  C8 at volume 0: after \<open>setVolume(0)\<close> and a confirmed \<open>play\<close> on a session without
  fade the element plays at 0.1 and \<open>displayVolume\<close> is 0, not \<open>max(volume, 0.1)\<close>.
\<close>

theorem play_nofade_below_floor:
  "\<not> fadeInEnabled (config muted_nofade)
   \<and> isPlaying (state muted_nofade)
   \<and> \<not> isFadingIn (state muted_nofade)
   \<and> fadeIntervalRef muted_nofade = None
   \<and> volume (state muted_nofade) = Num 0
   \<and> displayVolume (state muted_nofade) = Num 0
   \<and> Math_max (volume (state muted_nofade)) MIN_FADE_IN_VOLUME = Num (1 / 10)
   \<and> map_option el_volume (audioRef muted_nofade) = Some (Num (1 / 10))
   \<and> dispatched muted_nofade = [''test-1'']
   \<and> thrown muted_nofade = []"
  by (simp add: muted_nofade_def action_defs sample_defs)

section \<open>Setting the volume\<close>

lemma clamp_range:
  "v \<noteq> NaN \<Longrightarrow> \<exists>r. Math_max (Num 0) (Math_min (Num 1) v) = Num r \<and> 0 \<le> r \<and> r \<le> 1"
  by (cases v) (auto simp: Math_max_def Math_min_def)

lemma setVolume_clamps:
  assumes "audioRef s = Some a" "v \<noteq> NaN"
  shows "volume (state (setVolume v s)) = Math_max (Num 0) (Math_min (Num 1) v)
         \<and> displayVolume (state (setVolume v s)) = Math_max (Num 0) (Math_min (Num 1) v)
         \<and> fadeIntervalRef (setVolume v s) = None
         \<and> (fadeIntervalRef s \<noteq> None \<longrightarrow> \<not> isFadingIn (state (setVolume v s)))
         \<and> thrown (setVolume v s) = thrown s"
proof -
  obtain r where r: "Math_max (Num 0) (Math_min (Num 1) v) = Num r" "0 \<le> r" "r \<le> 1"
    using clamp_range [OF assms(2)] by blast
  show ?thesis
    using assms(1) r by (simp add: action_defs split: option.splits)
qed

text \<open>
  C3 at \<open>NaN\<close>: \<open>Math.max(0, Math.min(1, NaN))\<close> is \<open>NaN\<close>, which the element's volume
  setter refuses with a \<open>TypeError\<close>. In the middle of a fade the interval has been
  cleared and \<open>isFadingIn\<close> reset by then, so the state is left with \<open>isFadingIn\<close> false
  and a \<open>displayVolume\<close> that is not the volume. After a pause in the middle of a fade
  \<open>setVolume\<close> finds no interval and leaves \<open>isFadingIn\<close> set.
\<close>

theorem setVolume_NaN_propagates:
  "Math_max (Num 0) (Math_min (Num 1) NaN) = NaN
   \<and> thrown mid_fade = [] \<and> thrown (setVolume NaN mid_fade) = [TypeError]
   \<and> \<not> isFadingIn (state (setVolume NaN mid_fade))
   \<and> displayVolume (state (setVolume NaN mid_fade)) = Num (1 / 30)
   \<and> volume (state (setVolume NaN mid_fade)) = Num 1
   \<and> thrown (setVolume NaN fresh) = [TypeError]
   \<and> isFadingIn (state (setVolume (Num (1 / 2)) (pause mid_fade)))"
  by (simp add: action_defs sample_defs Math_max_def Math_min_def)

section \<open>The persisted volume\<close>

text \<open>
  C9. With persistence enabled, \<open>setVolume(v)\<close> for \<open>v\<close> in \<open>[0,1]\<close> stores the text of
  \<open>v\<close> under the storage key, and a fresh session with persistence enabled and the same
  key starts with volume \<open>v\<close>, for a runtime whose \<open>parseFloat\<close> reads the text of \<open>v\<close>
  back as \<open>v\<close>. A stored text that does not parse to a number in \<open>[0,1]\<close>, or no stored
  text, gives the configured default.
\<close>

theorem volume_round_trip:
  assumes "audioRef s = Some a" "persistVolume (config s)" "0 \<le> v" "v \<le> 1"
    and "parseFloat (js s) (toString (js s) (Num v)) = Num v" "toString (js s) (Num v) \<noteq> []"
    and "persistVolume cfg" "storageKey cfg = storageKey (config s)"
    and "store (storageKey cfg) = Some str"
    and "\<not> (\<exists>x. parseFloat (js s) str = Num x \<and> 0 \<le> x \<and> x \<le> 1)"
  shows "volume (state (AudioPlayerProvider (js s) cfg (localStorage (setVolume (Num v) s)))) = Num v
         \<and> displayVolume
              (state (AudioPlayerProvider (js s) cfg (localStorage (setVolume (Num v) s)))) = Num v
         \<and> localStorage (setVolume (Num v) s) (storageKey (config s))
             = Some (toString (js s) (Num v))
         \<and> volume (state (AudioPlayerProvider (js s) cfg store)) = defaultVolume cfg
         \<and> volume (state (AudioPlayerProvider (js s) cfg Map.empty)) = defaultVolume cfg"
proof -
  have st: "localStorage (setVolume (Num v) s) (storageKey (config s)) = Some (toString (js s) (Num v))"
    using assms(1-4) by (simp add: action_defs split: option.splits)
  have A: "state (AudioPlayerProvider (js s) cfg (localStorage (setVolume (Num v) s)))
             = (initialState cfg)\<lparr>volume := Num v, displayVolume := Num v\<rparr>"
    using assms(3-8) st by (simp add: AudioPlayerProvider_def Let_def isNaN_def js_ge_def setState_def)
  have B: "state (AudioPlayerProvider (js s) cfg store) = initialState cfg"
    using assms(7,9,10)
    by (cases "parseFloat (js s) str")
       (auto simp add: AudioPlayerProvider_def Let_def isNaN_def js_ge_def setState_def)
  have C: "state (AudioPlayerProvider (js s) cfg Map.empty) = initialState cfg"
    by (simp add: AudioPlayerProvider_def Let_def)
  show ?thesis
    using st by (simp add: A B C initialState_def)
qed
theorem volume_round_trip_witness:
  "volume (state (AudioPlayerProvider sample_runtime half_config
      (localStorage (setVolume (Num (42 / 100)) fresh)))) = Num (42 / 100)
   \<and> localStorage (setVolume (Num (42 / 100)) fresh) ''audioPlayerVolume'' = Some ''0.42''
   \<and> volume (state (AudioPlayerProvider sample_runtime half_config
        [''audioPlayerVolume'' \<mapsto> ''abc''])) = Num (1 / 2)
   \<and> volume (state (AudioPlayerProvider sample_runtime half_config Map.empty)) = Num (1 / 2)"
proof -
  have m: "audioRef fresh = Some new_Audio" "persistVolume (config fresh)" "js fresh = sample_runtime"
    "storageKey (config fresh) = ''audioPlayerVolume''"
    by (simp_all add: sample_defs)
  have c: "persistVolume half_config" "storageKey half_config = storageKey (config fresh)"
    "defaultVolume half_config = Num (1 / 2)"
    by (simp_all add: half_config_def sample_defs)
  have r: "parseFloat (js fresh) (toString (js fresh) (Num (42 / 100))) = Num (42 / 100)"
    "toString (js fresh) (Num (42 / 100)) \<noteq> []" "toString (js fresh) (Num (42 / 100)) = ''0.42''"
    "\<not> (\<exists>x. parseFloat (js fresh) ''abc'' = Num x \<and> 0 \<le> x \<and> x \<le> 1)"
    by (simp_all add: m(3) sample_runtime_def)
  have k: "[''audioPlayerVolume'' \<mapsto> ''abc''] (storageKey half_config) = Some ''abc''"
    by (simp add: c m)
  show ?thesis
    using volume_round_trip [where s = fresh and v = "42 / 100" and cfg = half_config
        and store = "[''audioPlayerVolume'' \<mapsto> ''abc'']" and str = "''abc''",
        OF m(1) m(2) _ _ r(1) r(2) c(1) c(2) k r(4)] m c r(3)
    by simp
qed

section \<open>The fade\<close>

text \<open>One tick in the middle of a fade to \<open>t\<close>, and the last one.\<close>

lemma fade_tick_mid:
  assumes "fadeIntervalRef s = Some tm" "volumeStep tm = Num (t / 30)" "targetVolume tm = Num t"
    "currentStep tm = c" "Suc c < 30" "0 \<le> t" "t \<le> 1" "audioRef s = Some a"
  shows "fade_tick s =
           s\<lparr>fadeIntervalRef := Some (tm\<lparr>currentStep := Suc c\<rparr>),
             audioRef := Some (a\<lparr>el_volume := ramp t (Suc c)\<rparr>),
             state := (state s)\<lparr>displayVolume := ramp t (Suc c)\<rparr>\<rparr>"
proof -
  have "real (Suc c) \<le> 30" using assms(5) by simp
  then have "(t / 30) * real (Suc c) \<le> (t / 30) * 30"
    using assms(6) by (intro mult_left_mono) simp_all
  then have le: "(t / 30) * real (Suc c) \<le> t" by simp
  have nn: "0 \<le> (t / 30) * real (Suc c)" using assms(6) by simp
  show ?thesis
    using assms le nn
    by (simp add: fade_tick_def Let_def Math_min_def ramp_def FADE_STEPS_def setState_def
        min_def del: of_nat_Suc)
qed

lemma fade_tick_last:
  assumes "fadeIntervalRef s = Some tm" "volumeStep tm = Num (t / 30)" "targetVolume tm = Num t"
    "currentStep tm = 29" "0 \<le> t" "t \<le> 1" "audioRef s = Some a"
  shows "fade_tick s =
           s\<lparr>fadeIntervalRef := None,
             audioRef := Some (a\<lparr>el_volume := Num t\<rparr>),
             state := (state s)\<lparr>isFadingIn := False, displayVolume := Num t\<rparr>\<rparr>"
  using assms
  by (simp add: fade_tick_def Let_def FADE_STEPS_def setState_def clearFade_def)

lemma ticks_Suc: "ticks (Suc n) s = fade_tick (ticks n s)"
  by (simp add: ticks_def)

lemma ticks_add: "ticks (m + n) s = ticks n (ticks m s)"
proof -
  have "(fade_tick ^^ (n + m)) s = (fade_tick ^^ n) ((fade_tick ^^ m) s)"
    by (simp add: funpow_add)
  then show ?thesis
    by (simp add: ticks_def add.commute)
qed

lemma ticks_mid:
  assumes "fadeIntervalRef s = Some tm" "volumeStep tm = Num (t / 30)" "targetVolume tm = Num t"
    "currentStep tm = 0" "0 \<le> t" "t \<le> 1" "audioRef s = Some a"
  shows "Suc k < 30 \<Longrightarrow>
         ticks (Suc k) s =
           s\<lparr>fadeIntervalRef := Some (tm\<lparr>currentStep := Suc k\<rparr>),
             audioRef := Some (a\<lparr>el_volume := ramp t (Suc k)\<rparr>),
             state := (state s)\<lparr>displayVolume := ramp t (Suc k)\<rparr>\<rparr>"
proof (induction k)
  case 0
  have "ticks (Suc 0) s = fade_tick s" by (simp add: ticks_def)
  then show ?case
    using fade_tick_mid [OF assms(1,2,3,4) _ assms(5,6,7)] by simp
next
  case (Suc k)
  let ?s = "ticks (Suc k) s"
  have prev: "?s = s\<lparr>fadeIntervalRef := Some (tm\<lparr>currentStep := Suc k\<rparr>),
             audioRef := Some (a\<lparr>el_volume := ramp t (Suc k)\<rparr>),
             state := (state s)\<lparr>displayVolume := ramp t (Suc k)\<rparr>\<rparr>"
    using Suc by simp
  have "fade_tick ?s =
           ?s\<lparr>fadeIntervalRef := Some ((tm\<lparr>currentStep := Suc k\<rparr>)\<lparr>currentStep := Suc (Suc k)\<rparr>),
             audioRef := Some ((a\<lparr>el_volume := ramp t (Suc k)\<rparr>)\<lparr>el_volume := ramp t (Suc (Suc k))\<rparr>),
             state := (state ?s)\<lparr>displayVolume := ramp t (Suc (Suc k))\<rparr>\<rparr>"
    by (rule fade_tick_mid [where t = t]) (use prev assms Suc.prems in simp_all)
  then show ?case
    by (simp add: ticks_Suc [of "Suc k"] prev)
qed

lemma ticks_done:
  assumes "fadeIntervalRef s = Some tm" "volumeStep tm = Num (t / 30)" "targetVolume tm = Num t"
    "currentStep tm = 0" "0 \<le> t" "t \<le> 1" "audioRef s = Some a"
  shows "ticks 30 s =
           s\<lparr>fadeIntervalRef := None,
             audioRef := Some (a\<lparr>el_volume := Num t\<rparr>),
             state := (state s)\<lparr>isFadingIn := False, displayVolume := Num t\<rparr>\<rparr>"
proof -
  let ?s = "ticks 29 s"
  have prev: "?s = s\<lparr>fadeIntervalRef := Some (tm\<lparr>currentStep := 29\<rparr>),
             audioRef := Some (a\<lparr>el_volume := ramp t 29\<rparr>),
             state := (state s)\<lparr>displayVolume := ramp t 29\<rparr>\<rparr>"
    using ticks_mid [OF assms, of 28] by simp
  have "fade_tick ?s =
           ?s\<lparr>fadeIntervalRef := None,
             audioRef := Some ((a\<lparr>el_volume := ramp t 29\<rparr>)\<lparr>el_volume := Num t\<rparr>),
             state := (state ?s)\<lparr>isFadingIn := False, displayVolume := Num t\<rparr>\<rparr>"
    by (rule fade_tick_last [where tm = "tm\<lparr>currentStep := 29\<rparr>"]) (use prev assms in simp_all)
  moreover have "ticks 30 s = fade_tick ?s"
    using ticks_Suc [of 29 s] by simp
  ultimately show ?thesis by (simp add: prev)
qed

lemma fade_tick_idle: "fadeIntervalRef s = None \<Longrightarrow> fade_tick s = s"
  by (simp add: fade_tick_def)

lemma ticks_idle: "fadeIntervalRef s = None \<Longrightarrow> ticks n s = s"
  by (induction n) (simp_all add: ticks_def fade_tick_idle)

lemma ticks_past:
  assumes "fadeIntervalRef s = Some tm" "volumeStep tm = Num (t / 30)" "targetVolume tm = Num t"
    "currentStep tm = 0" "0 \<le> t" "t \<le> 1" "audioRef s = Some a"
  shows "ticks (30 + n) s = ticks 30 s"
proof -
  have "fadeIntervalRef (ticks 30 s) = None"
    by (simp add: ticks_done [OF assms])
  then show ?thesis
    by (simp add: ticks_add ticks_idle)
qed

lemma ramp_0: "0 \<le> t \<Longrightarrow> ramp t 0 = Num 0"
  by (simp add: ramp_def)

lemma ramp_30: "ramp t 30 = Num t"
  by (simp add: ramp_def)

lemma ramp_mono: "0 \<le> t \<Longrightarrow> j \<le> k \<Longrightarrow> js_le (ramp t j) (ramp t k)"
proof -
  assume t: "0 \<le> t" and jk: "j \<le> k"
  have "(t / 30) * real j \<le> (t / 30) * real k"
    using t jk by (intro mult_left_mono) simp_all
  then show ?thesis
    by (simp add: ramp_def min_def)
qed

lemma ramp_le: "js_le (ramp t k) (Num t)"
  by (simp add: ramp_def)

text \<open>The levels of a fade that has just been started: step \<open>k\<close> puts out \<open>ramp t k\<close>.\<close>

lemma fade_levels:
  assumes "fadeIntervalRef s = Some tm" "volumeStep tm = Num (t / 30)" "targetVolume tm = Num t"
    "currentStep tm = 0" "0 \<le> t" "t \<le> 1" "audioRef s = Some a"
    "displayVolume (state s) = Num 0"
  shows "displayVolume (state (ticks k s)) = ramp t (min k 30)"
proof -
  consider "k = 0" | j where "k = Suc j" "Suc j < 30" | n where "k = 30 + n"
    by (metis Suc_pred add.commute le_add_diff_inverse2 not_less zero_less_iff_neq_zero)
  then show ?thesis
  proof cases
    case 1
    then show ?thesis using assms(5,8) by (simp add: ticks_def ramp_0)
  next
    case 2
    then show ?thesis
      using ticks_mid [OF assms(1-7), of j] by simp
  next
    case 3
    then show ?thesis
      by (simp add: ticks_past [OF assms(1-7)] ticks_done [OF assms(1-7)] ramp_30)
  qed
qed

lemma play_confirmed_fade:
  assumes "audioRef s = Some a" "fadeInEnabled (config s)" "volume (state s) = Num v"
    "0 \<le> v" "v \<le> 1"
  shows "fadeIntervalRef (play_confirmed sg s) =
           Some \<lparr>fadeStepDuration = js_divide (fadeInDuration (config s)) (Num 30),
                 volumeStep = Num (max v (1 / 10) / 30), targetVolume = Num (max v (1 / 10)),
                 currentStep = 0\<rparr>"
    and "audioRef (play_confirmed sg s) \<noteq> None"
    and "displayVolume (state (play_confirmed sg s)) = Num 0"
    and "isFadingIn (state (play_confirmed sg s))"
    and "volume (state (play_confirmed sg s)) = Num v"
    and "config (play_confirmed sg s) = config s"
    and "pending (play_confirmed sg s) = pending s"
    and "dispatched (play_confirmed sg s) = dispatched s @ [song_id sg]"
    and "callbacks (play_confirmed sg s) = callbacks s @ [OnPlay sg]"
    and "thrown (play_confirmed sg s) = thrown s"
    and "map_option song_id (currentSong (state (play_confirmed sg s))) = Some (song_id sg)"
    and "isPlaying (state (play_confirmed sg s))"
  using assms
  by (auto simp add: play_confirmed_def action_defs MIN_FADE_IN_VOLUME_def FADE_STEPS_def
      split: option.splits)



text \<open>What a fade that runs to its end leaves behind.\<close>

lemma fade_settled:
  assumes "fadeIntervalRef s = Some tm" "volumeStep tm = Num (t / 30)" "targetVolume tm = Num t"
    "currentStep tm = 0" "0 \<le> t" "t \<le> 1" "audioRef s \<noteq> None"
  shows "displayVolume (state (ticks 30 s)) = Num t"
    and "\<not> isFadingIn (state (ticks 30 s))"
    and "fadeIntervalRef (ticks 30 s) = None"
    and "audioRef (ticks 30 s) \<noteq> None"
    and "map_option el_volume (audioRef (ticks 30 s)) = Some (Num t)"
    and "volume (state (ticks 30 s)) = volume (state s)"
    and "currentSong (state (ticks 30 s)) = currentSong (state s)"
    and "isPlaying (state (ticks 30 s)) = isPlaying (state s)"
    and "config (ticks 30 s) = config s"
    and "pending (ticks 30 s) = pending s"
    and "dispatched (ticks 30 s) = dispatched s"
    and "thrown (ticks 30 s) = thrown s"
proof -
  obtain a where a: "audioRef s = Some a" using assms(7) by auto
  note d = ticks_done [OF assms(1-6) a]
  show "displayVolume (state (ticks 30 s)) = Num t" "\<not> isFadingIn (state (ticks 30 s))"
    "fadeIntervalRef (ticks 30 s) = None" "audioRef (ticks 30 s) \<noteq> None"
    "map_option el_volume (audioRef (ticks 30 s)) = Some (Num t)"
    "volume (state (ticks 30 s)) = volume (state s)"
    "currentSong (state (ticks 30 s)) = currentSong (state s)"
    "isPlaying (state (ticks 30 s)) = isPlaying (state s)"
    "config (ticks 30 s) = config s" "pending (ticks 30 s) = pending s"
    "dispatched (ticks 30 s) = dispatched s" "thrown (ticks 30 s) = thrown s"
    by (simp_all add: d)
qed

text \<open>
  C4. With fade enabled and a volume in \<open>[0,1]\<close>, a confirmed \<open>play\<close> starts an interval
  of period \<open>fadeInDuration / 30\<close> with increment \<open>target / 30\<close> for the target
  \<open>max(volume, 0.1)\<close>. \<open>displayVolume\<close> starts at 0; after tick \<open>k\<close> it is
  \<open>min(k * increment, target)\<close>, and so is the element's volume. The levels never
  decrease and never exceed the target. Up to tick 29 the fade is in progress; tick 30
  sets \<open>displayVolume\<close> to the target, clears \<open>isFadingIn\<close> and the interval, and no
  further tick changes anything.
\<close>

theorem fade_ramp:
  assumes "audioRef s = Some a" "fadeInEnabled (config s)" "volume (state s) = Num v"
    "0 \<le> v" "v \<le> 1"
  shows "fadeIntervalRef (play_confirmed sg s) =
           Some \<lparr>fadeStepDuration = js_divide (fadeInDuration (config s)) (Num 30),
                 volumeStep = Num (max v (1 / 10) / 30), targetVolume = Num (max v (1 / 10)),
                 currentStep = 0\<rparr>
         \<and> displayVolume (state (play_confirmed sg s)) = Num 0
         \<and> (\<forall>k. displayVolume (state (ticks k (play_confirmed sg s)))
                 = Num (min (max v (1 / 10) / 30 * real (min k 30)) (max v (1 / 10))))
         \<and> (\<forall>k. 0 < k \<longrightarrow> k < 30 \<longrightarrow>
                map_option el_volume (audioRef (ticks k (play_confirmed sg s)))
                 = Some (Num (min (max v (1 / 10) / 30 * real k) (max v (1 / 10)))))
         \<and> (\<forall>j k. j \<le> k \<longrightarrow>
                js_le (displayVolume (state (ticks j (play_confirmed sg s))))
                      (displayVolume (state (ticks k (play_confirmed sg s)))))
         \<and> (\<forall>k. js_le (displayVolume (state (ticks k (play_confirmed sg s))))
                       (Num (max v (1 / 10))))
         \<and> (\<forall>k<30. isFadingIn (state (ticks k (play_confirmed sg s)))
                     \<and> fadeIntervalRef (ticks k (play_confirmed sg s)) \<noteq> None)
         \<and> displayVolume (state (ticks 30 (play_confirmed sg s))) = Num (max v (1 / 10))
         \<and> map_option el_volume (audioRef (ticks 30 (play_confirmed sg s)))
             = Some (Num (max v (1 / 10)))
         \<and> \<not> isFadingIn (state (ticks 30 (play_confirmed sg s)))
         \<and> fadeIntervalRef (ticks 30 (play_confirmed sg s)) = None
         \<and> (\<forall>n. ticks (30 + n) (play_confirmed sg s) = ticks 30 (play_confirmed sg s))"
proof -
  let ?t = "max v (1 / 10)"
  let ?s0 = "play_confirmed sg s"
  let ?tm = "\<lparr>fadeStepDuration = js_divide (fadeInDuration (config s)) (Num 30),
              volumeStep = Num (?t / 30), targetVolume = Num ?t, currentStep = 0\<rparr>"
  have t: "0 \<le> ?t" "?t \<le> 1" using assms(4,5) by simp_all
  note pc = play_confirmed_fade [OF assms, of sg]
  obtain a0 where a0: "audioRef ?s0 = Some a0" using pc(2) by auto
  have tm: "fadeIntervalRef ?s0 = Some ?tm" by (rule pc(1))
  have f: "volumeStep ?tm = Num (?t / 30)" "targetVolume ?tm = Num ?t" "currentStep ?tm = 0"
    by simp_all
  have lev: "displayVolume (state (ticks k ?s0)) = ramp ?t (min k 30)" for k
    by (rule fade_levels [OF tm f t a0 pc(3)])
  have mid: "ticks (Suc k) ?s0 =
           ?s0\<lparr>fadeIntervalRef := Some (?tm\<lparr>currentStep := Suc k\<rparr>),
             audioRef := Some (a0\<lparr>el_volume := ramp ?t (Suc k)\<rparr>),
             state := (state ?s0)\<lparr>displayVolume := ramp ?t (Suc k)\<rparr>\<rparr>" if "Suc k < 30" for k
    by (rule ticks_mid [OF tm f t a0 that])
  have el: "map_option el_volume (audioRef (ticks k ?s0)) = Some (ramp ?t k)"
    if pos: "0 < k" and lt: "k < 30" for k
  proof -
    obtain j where "k = Suc j" using pos by (cases k) auto
    then show ?thesis using mid [of j] lt by simp
  qed
  have run: "isFadingIn (state (ticks k ?s0)) \<and> fadeIntervalRef (ticks k ?s0) \<noteq> None"
    if "k < 30" for k
  proof (cases k)
    case 0
    then show ?thesis using pc(4) tm by (simp add: ticks_def)
  next
    case (Suc j)
    then show ?thesis using mid [of j] that pc(4) by simp
  qed
  have mono: "js_le (displayVolume (state (ticks j ?s0))) (displayVolume (state (ticks k ?s0)))"
    if "j \<le> k" for j k
    using that t(1) by (simp add: lev ramp_mono)
  have le: "js_le (displayVolume (state (ticks k ?s0))) (Num ?t)" for k
    by (simp add: lev ramp_le)
  note fin = fade_settled [OF tm f t pc(2)]
  have past: "ticks (30 + n) ?s0 = ticks 30 ?s0" for n
    by (rule ticks_past [OF tm f t a0])
  have lev': "displayVolume (state (ticks k ?s0)) = Num (min (?t / 30 * real (min k 30)) ?t)" for k
    using lev [of k] by (simp add: ramp_def)
  have el': "map_option el_volume (audioRef (ticks k ?s0)) = Some (Num (min (?t / 30 * real k) ?t))"
    if "0 < k" "k < 30" for k
    using el [OF that] by (simp add: ramp_def)
  show ?thesis
    using tm pc(3) lev' el' mono le run fin(1,2,3,5) past by blast
qed

theorem fade_ramp_witness:
  "audioRef vol80 \<noteq> None \<and> fadeInEnabled (config vol80) \<and> volume (state vol80) = Num (8 / 10)
   \<and> map_option fadeStepDuration (fadeIntervalRef (play_confirmed sample_song vol80))
       = Some (Num 100)
   \<and> map_option volumeStep (fadeIntervalRef (play_confirmed sample_song vol80))
       = Some (Num (8 / 300))
   \<and> displayVolume (state (play_confirmed sample_song vol80)) = Num 0
   \<and> displayVolume (state (ticks 15 (play_confirmed sample_song vol80))) = Num (4 / 10)
   \<and> isFadingIn (state (ticks 29 (play_confirmed sample_song vol80)))
   \<and> displayVolume (state (ticks 30 (play_confirmed sample_song vol80))) = Num (8 / 10)
   \<and> \<not> isFadingIn (state (ticks 30 (play_confirmed sample_song vol80)))
   \<and> fadeIntervalRef (ticks 31 (play_confirmed sample_song vol80)) = None"
proof -
  have m: "audioRef vol80 = Some (new_Audio\<lparr>el_volume := Num (8 / 10)\<rparr>)" "fadeInEnabled (config vol80)"
    "volume (state vol80) = Num (8 / 10)" "fadeInDuration (config vol80) = Num 3000"
    by (simp_all add: vol80_def action_defs sample_defs)
  have v: "(0::real) \<le> 8 / 10" "(8 / 10 :: real) \<le> 1" by simp_all
  note r = fade_ramp [OF m(1) m(2) m(3) v, of sample_song]
  have "ticks (30 + 1) (play_confirmed sample_song vol80) = ticks 30 (play_confirmed sample_song vol80)"
    using r by blast
  then have p: "fadeIntervalRef (ticks 31 (play_confirmed sample_song vol80)) = None"
    using r by simp
  have "(29::nat) < 30" by simp
  then show ?thesis
    using r m p by (simp add: max_def)
qed

section \<open>Pause and resume\<close>



section \<open>The volume shown outside a fade\<close>















lemma play_at_current: "play_at (state s) sg s = play sg s"
  by (simp add: play_at_def play_def)

lemma togglePlay_at_current: "togglePlay_at (state s) s = togglePlay s"
  by (simp add: togglePlay_at_def togglePlay_def)








section \<open>Mutual exclusion by broadcast\<close>

text \<open>A click on a standalone player never reaches the provider.\<close>

lemma handlePlayClick_provider: "provider (handlePlayClick i pg) = provider pg"
  by (simp add: handlePlayClick_def Let_def split: option.splits)

text \<open>
  C2, as the claim states it, fails when the first instance is the provider's session:
  the provider dispatches the event and never listens to it. With the provider playing
  one track, a click on a standalone player of another track starts that player, and the
  provider still reports \<open>isPlaying\<close> with its element not paused.
\<close>

theorem provider_not_paused_counterexample:
  "isPlaying (state (provider mixed_page))
   \<and> map_option song_id (currentSong (state (provider mixed_page))) = Some ''test-1''
   \<and> map_option paused (audioRef (provider mixed_page)) = Some False
   \<and> localIsPlaying (players mixed_page ! 0)
   \<and> song_id (sp_song (players mixed_page ! 0)) = ''test-2''
   \<and> map_option paused (localAudioRef (players mixed_page ! 0)) = Some False"
  by (simp add: mixed_page_def provider_plays_def provider_step_def handlePlayClick_def
      broadcast_def handleOtherPlayerPlay_def WaveformPlayer_def action_defs sample_defs)

lemma click_starts:
  assumes "i < length (players pg)" "localAudioRef (players pg ! i) = Some a"
    "\<not> localIsPlaying (players pg ! i)"
    "song_id (sp_song (players pg ! i)) \<noteq> []" "audioUrl (sp_song (players pg ! i)) \<noteq> []"
  shows "players (handlePlayClick i pg) =
           (broadcast (song_id (sp_song (players pg ! i))) (players pg))
             [i := (players pg ! i)
                \<lparr>localAudioRef :=
                   Some (el_play (if src a \<noteq> audioUrl (sp_song (players pg ! i))
                                  then a\<lparr>src := audioUrl (sp_song (players pg ! i))\<rparr> else a)),
                 localIsPlaying := True\<rparr>]"
  using assms
  by (simp add: handlePlayClick_def Let_def broadcast_def handleOtherPlayerPlay_def)

lemma broadcast_other:
  assumes "j < length ps" "song_id (sp_song (ps ! j)) \<noteq> d"
  shows "broadcast d ps ! j =
           (ps ! j)\<lparr>localAudioRef := map_option el_pause (localAudioRef (ps ! j)),
                    localIsPlaying := (localIsPlaying (ps ! j) \<and> localAudioRef (ps ! j) = None)\<rparr>"
  using assms
  by (auto simp add: broadcast_def handleOtherPlayerPlay_def split: option.splits)

lemma broadcast_length [simp]: "length (broadcast d ps) = length ps"
  by (simp add: broadcast_def)

text \<open>
  C2, amended. Let A be a standalone player, mounted and started by a click, and let B
  play a track with another id: B is a second standalone player started by a click, or
  the provider's session whose \<open>play\<close> the element confirms. Once B's broadcast is
  delivered, A reports \<open>isPlaying\<close> false and B true. The self-pause pauses A's
  element and clears A's playing flag and changes nothing else of A, which has no
  volume of its own; the provider's volume and the stored volume are as before.
\<close>

theorem broadcast_exclusion:
  assumes "i < length (players pg)" "j < length (players pg)" "i \<noteq> j"
    and "localAudioRef (players pg ! i) = Some a" "localAudioRef (players pg ! j) = Some b"
    and "\<not> localIsPlaying (players pg ! i)" "\<not> localIsPlaying (players pg ! j)"
    and "song_id (sp_song (players pg ! i)) \<noteq> []" "audioUrl (sp_song (players pg ! i)) \<noteq> []"
    and "song_id (sp_song (players pg ! j)) \<noteq> []" "audioUrl (sp_song (players pg ! j)) \<noteq> []"
    and "song_id (sp_song (players pg ! i)) \<noteq> song_id (sp_song (players pg ! j))"
    and "audioRef (provider pg) = Some c" "volume (state (provider pg)) = Num v" "0 \<le> v" "v \<le> 1"
    and "song_id sg \<noteq> song_id (sp_song (players pg ! i))"
  shows "localIsPlaying (players (handlePlayClick i pg) ! i)
         \<and> \<not> localIsPlaying (players (handlePlayClick j (handlePlayClick i pg)) ! i)
         \<and> localIsPlaying (players (handlePlayClick j (handlePlayClick i pg)) ! j)
         \<and> players (handlePlayClick j (handlePlayClick i pg)) ! i
             = (players (handlePlayClick i pg) ! i)
                 \<lparr>localAudioRef :=
                    map_option el_pause (localAudioRef (players (handlePlayClick i pg) ! i)),
                  localIsPlaying := False\<rparr>
         \<and> provider (handlePlayClick j (handlePlayClick i pg)) = provider pg
         \<and> \<not> localIsPlaying (players (provider_plays sg (handlePlayClick i pg)) ! i)
         \<and> isPlaying (state (provider (provider_plays sg (handlePlayClick i pg))))
         \<and> players (provider_plays sg (handlePlayClick i pg)) ! i
             = (players (handlePlayClick i pg) ! i)
                 \<lparr>localAudioRef :=
                    map_option el_pause (localAudioRef (players (handlePlayClick i pg) ! i)),
                  localIsPlaying := False\<rparr>
         \<and> volume (state (provider (provider_plays sg (handlePlayClick i pg)))) = Num v
         \<and> localStorage (provider (provider_plays sg (handlePlayClick i pg)))
             = localStorage (provider pg)"
proof -
  let ?A = "players pg ! i" and ?B = "players pg ! j"
  let ?pg1 = "handlePlayClick i pg"
  note c1 = click_starts [OF assms(1,4,6,8,9)]
  have len1: "length (players ?pg1) = length (players pg)" by (simp add: c1)
  have A1: "players ?pg1 ! i =
      ?A\<lparr>localAudioRef := Some (el_play (if src a \<noteq> audioUrl (sp_song ?A)
                                  then a\<lparr>src := audioUrl (sp_song ?A)\<rparr> else a)),
         localIsPlaying := True\<rparr>"
    using assms(1) by (simp add: c1)
  have B1: "players ?pg1 ! j = ?B\<lparr>localAudioRef := Some (el_pause b), localIsPlaying := False\<rparr>"
    using assms(2,3,5,12) by (simp add: c1 broadcast_other)
  have p1: "provider ?pg1 = provider pg" by (rule handlePlayClick_provider)
  let ?pg2 = "handlePlayClick j ?pg1"
  have j1: "j < length (players ?pg1)" "i < length (players ?pg1)"
    using assms(1,2) len1 by simp_all
  have c2: "players ?pg2 =
      (broadcast (song_id (sp_song (players ?pg1 ! j))) (players ?pg1))
             [j := (players ?pg1 ! j)
                \<lparr>localAudioRef :=
                   Some (el_play (if src (el_pause b) \<noteq> audioUrl (sp_song (players ?pg1 ! j))
                        then (el_pause b)\<lparr>src := audioUrl (sp_song (players ?pg1 ! j))\<rparr>
                        else el_pause b)),
                 localIsPlaying := True\<rparr>]"
    by (rule click_starts [OF j1(1)]) (use B1 assms(10,11) in simp_all)
  have A2: "players ?pg2 ! i =
      (players ?pg1 ! i)\<lparr>localAudioRef := map_option el_pause (localAudioRef (players ?pg1 ! i)),
                          localIsPlaying := False\<rparr>"
    using assms(3,12) j1 A1 B1 by (simp add: c2 broadcast_other)
  have B2: "localIsPlaying (players ?pg2 ! j)"
    using j1 by (simp add: c2)
  have p2: "provider ?pg2 = provider pg"
    by (simp add: handlePlayClick_provider)
  let ?pg3 = "provider_plays sg ?pg1"
  have t: "0 \<le> max v (1 / 10)" "max v (1 / 10) \<le> 1" using assms(15,16) by simp_all
  have d3: "dispatched (provider ?pg3) = dispatched (provider pg) @ [song_id sg]"
    and s3: "isPlaying (state (provider ?pg3))" "volume (state (provider ?pg3)) = Num v"
      "localStorage (provider ?pg3) = localStorage (provider pg)"
    and pl3: "players ?pg3 = broadcast (song_id sg) (players ?pg1)"
    using assms(13,14) t p1
    by (auto simp add: provider_plays_def provider_step_def action_defs MIN_FADE_IN_VOLUME_def
        split: option.splits)
  have A3: "players ?pg3 ! i =
      (players ?pg1 ! i)\<lparr>localAudioRef := map_option el_pause (localAudioRef (players ?pg1 ! i)),
                          localIsPlaying := False\<rparr>"
    using assms(17) j1 A1 by (simp add: pl3 broadcast_other)
  show ?thesis
    using A1 A2 B2 p2 A3 s3 by simp
qed


theorem broadcast_exclusion_witness:
  "song_id (sp_song (players two_players ! 0)) = ''test-1''
   \<and> song_id (sp_song (players two_players ! 1)) = ''test-2''
   \<and> localIsPlaying (players (handlePlayClick 0 two_players) ! 0)
   \<and> \<not> localIsPlaying (players (handlePlayClick 1 (handlePlayClick 0 two_players)) ! 0)
   \<and> localIsPlaying (players (handlePlayClick 1 (handlePlayClick 0 two_players)) ! 1)
   \<and> \<not> localIsPlaying (players (provider_plays other_song (handlePlayClick 0 two_players)) ! 0)
   \<and> isPlaying (state (provider (provider_plays other_song (handlePlayClick 0 two_players))))
   \<and> volume (state (provider (provider_plays other_song (handlePlayClick 0 two_players)))) = Num 1"
proof -
  have p: "players two_players = [WaveformPlayer sample_song, WaveformPlayer other_song]"
    "provider two_players = fresh"
    by (simp_all add: two_players_def)
  have h: "0 < length (players two_players)" "1 < length (players two_players)" "(0::nat) \<noteq> 1"
    "localAudioRef (players two_players ! 0) = Some new_Audio"
    "localAudioRef (players two_players ! 1) = Some new_Audio"
    "\<not> localIsPlaying (players two_players ! 0)" "\<not> localIsPlaying (players two_players ! 1)"
    "song_id (sp_song (players two_players ! 0)) \<noteq> []"
    "audioUrl (sp_song (players two_players ! 0)) \<noteq> []"
    "song_id (sp_song (players two_players ! 1)) \<noteq> []"
    "audioUrl (sp_song (players two_players ! 1)) \<noteq> []"
    "song_id (sp_song (players two_players ! 0)) \<noteq> song_id (sp_song (players two_players ! 1))"
    "audioRef (provider two_players) = Some new_Audio"
    "volume (state (provider two_players)) = Num 1" "(0::real) \<le> 1" "(1::real) \<le> 1"
    "song_id other_song \<noteq> song_id (sp_song (players two_players ! 0))"
    by (simp_all add: p WaveformPlayer_def sample_defs)
  have ids: "song_id (sp_song (players two_players ! 0)) = ''test-1''"
    "song_id (sp_song (players two_players ! 1)) = ''test-2''"
    by (simp_all add: p WaveformPlayer_def sample_defs)
  show ?thesis
    using broadcast_exclusion [OF h] ids by simp
qed

end
